theory Spec2Isabelle
  imports Main "HOL-Library.Signed_Division"
begin

section \<open>Data model of the audio player context\<close>

text \<open>
  The provider of \<^verbatim>\<open>src/contexts/AudioPlayerContext.tsx\<close> keeps seven React state
  cells and delegates every real operation to a native sound engine. The model is a
  record of the seven cells together with what the provider does to its environment:
  the sounds the engine holds loaded, the native calls issued, and the console.

  A handler is a closure of the render that created it: it reads the cells of that
  render and writes, through the state setters, to the cells as they are when it
  writes. Each operation is modelled twice. The first definition is the handler running
  from call to end on the state it reads, with nothing happening in between; no handler
  reads a cell after it has set it, so passing the state along is exact. The second
  definition (suffix \<open>_from\<close>) takes the render the handler was called from as an
  argument of its own, and is what sequences of operations are built from: a call
  records the current render, and when its native calls settle, which may be after
  other operations, it runs to its end reading that render. The status callback the
  engine calls is the closure registered by the effect of lines 92 to 99, which runs
  only when the playback instance changes.
\<close>

type_synonym error = string

text \<open>The identity of an \<^verbatim>\<open>Audio.Sound\<close> object.\<close>

type_synonym sound = nat

text \<open>
  Modelled from the spec: the type \<^verbatim>\<open>DownloadedSong\<close> is declared in
  \<^verbatim>\<open>services/api\<close>, which is not among the sources. The spec describes it as an opaque
  identifier plus a local file path; the provider reads exactly the fields \<^verbatim>\<open>id\<close>
  and \<^verbatim>\<open>filePath\<close>.
\<close>

record DownloadedSong =
  song_id :: string
  filePath :: string

text \<open>
  \<^verbatim>\<open>AVPlaybackStatus\<close> is a tagged union on \<^verbatim>\<open>isLoaded\<close>. Of a loaded status the
  provider reads \<^verbatim>\<open>isPlaying\<close>, the optional \<^verbatim>\<open>durationMillis\<close>,
  \<^verbatim>\<open>positionMillis\<close> and \<^verbatim>\<open>didJustFinish\<close>. Millisecond counts are integers.
\<close>

datatype AVPlaybackStatus =
    NotLoaded
  | Loaded (status_isPlaying: bool) (durationMillis: "int option")
      (positionMillis: int) (didJustFinish: bool)

text \<open>The settlement of a promise returned by the native engine or by a handler.\<close>

datatype 'a reply = Resolves 'a | Rejects error

datatype outcome = Fulfilled | Rejected error

text \<open>
  The engine is a third-party library. What it answers to the calls of one handler
  invocation is an input of the model: one reply for each native method. No handler
  calls the same method twice.
\<close>

record engine =
  unloadAsync :: "unit reply"
  createAsync :: "unit reply"
  pauseAsync :: "unit reply"
  playAsync :: "unit reply"
  setPositionAsync :: "unit reply"
  stopAsync :: "unit reply"

datatype native_call =
    UnloadAsync sound
  | CreateAsync string
  | PauseAsync sound
  | PlayAsync sound
  | SetPositionAsync sound int
  | StopAsync sound

text \<open>The seven state cells of lines 26 to 32: what a render, and every closure created in
  it, holds.\<close>

record cells =
  currentSong :: "DownloadedSong option"
  isPlaying :: bool
  playbackInstance :: "sound option"
  duration :: int
  position :: int
  playlist :: "DownloadedSong list"
  masterPlaylist :: "DownloadedSong list"

text \<open>The operations the provider exports, as a caller names them.\<close>

datatype operation =
    Play DownloadedSong
  | Pause
  | Resume
  | Seek int
  | Next
  | Previous
  | Stop
  | StopAndClear

text \<open>
  The provider and its environment: the current cells; the sounds the engine holds loaded,
  the number of sounds created so far, the native calls issued and the console; the
  render whose \<^verbatim>\<open>updatePlaybackStatus\<close> is registered on the playback instance (none
  when there is no instance); the calls that have been made and whose native calls have
  not settled yet, each with the render it was made from; and the ticks of the position
  timer that wait for the status they asked for.
\<close>

record player = cells +
  loadedSounds :: "sound set"
  soundsCreated :: nat
  nativeCalls :: "native_call list"
  console :: "(string \<times> error) list"
  listener :: "cells option"
  pending :: "(cells \<times> operation) list"
  polls :: "cells list"

text \<open>The initial values of the \<^verbatim>\<open>useState\<close> cells, with nothing loaded or logged.\<close>

definition initial :: player where
  "initial =
     \<lparr> currentSong = None, isPlaying = False, playbackInstance = None,
       duration = 0, position = 0, playlist = [], masterPlaylist = [],
       loadedSounds = {}, soundsCreated = 0, nativeCalls = [], console = [],
       listener = None, pending = [], polls = [] \<rparr>"

text \<open>The render of the current cells.\<close>

definition closure_of :: "player \<Rightarrow> cells" where
  "closure_of w =
     \<lparr> currentSong = currentSong w, isPlaying = isPlaying w,
       playbackInstance = playbackInstance w, duration = duration w,
       position = position w, playlist = playlist w,
       masterPlaylist = masterPlaylist w \<rparr>"

section \<open>Helpers of the language\<close>

text \<open>\<^verbatim>\<open>Array.prototype.findIndex\<close>: the first index whose element satisfies the
  predicate, or -1.\<close>

fun findIndexFrom :: "int \<Rightarrow> ('a \<Rightarrow> bool) \<Rightarrow> 'a list \<Rightarrow> int" where
  "findIndexFrom k P [] = - 1"
| "findIndexFrom k P (x # xs) = (if P x then k else findIndexFrom (k + 1) P xs)"

definition findIndex :: "('a \<Rightarrow> bool) \<Rightarrow> 'a list \<Rightarrow> int" where
  "findIndex P xs = findIndexFrom 0 P xs"

text \<open>An array read \<^verbatim>\<open>xs[i]\<close>: \<^verbatim>\<open>undefined\<close> (here \<open>None\<close>) out of range.\<close>

definition element_at :: "'a list \<Rightarrow> int \<Rightarrow> 'a option" where
  "element_at xs i = (if 0 \<le> i \<and> i < int (length xs) then Some (xs ! nat i) else None)"

text \<open>\<^verbatim>\<open>console.error(message, error)\<close>.\<close>

definition console_error :: "string \<Rightarrow> error \<Rightarrow> player \<Rightarrow> player" where
  "console_error msg e w = w\<lparr>console := console w @ [(msg, e)]\<rparr>"

definition native :: "native_call \<Rightarrow> player \<Rightarrow> player" where
  "native c w = w\<lparr>nativeCalls := nativeCalls w @ [c]\<rparr>"

text \<open>\<^verbatim>\<open>status.durationMillis || 0\<close>: an absent duration, and a duration of 0, give 0.\<close>

definition or_zero :: "int option \<Rightarrow> int" where
  "or_zero d = (case d of None \<Rightarrow> 0 | Some n \<Rightarrow> (if n = 0 then 0 else n))"

section \<open>The operations of the provider\<close>

text \<open>
  \<^verbatim>\<open>playSong\<close> (lines 108 to 133). The argument is optional because JavaScript passes
  \<^verbatim>\<open>undefined\<close> when the caller read an array out of range; reading
  \<^verbatim>\<open>song.filePath\<close> then throws a TypeError inside the \<^verbatim>\<open>try\<close> block.
  The whole body is inside \<^verbatim>\<open>try\<close>: whatever is thrown is logged and the promise is
  fulfilled. State setters called before the throw stay in effect.
\<close>

definition playSong :: "engine \<Rightarrow> DownloadedSong option \<Rightarrow> player \<Rightarrow> player \<times> outcome" where
  "playSong eng song w =
     (let unloaded =
        (case playbackInstance w of
           None \<Rightarrow> Inr w
         | Some h \<Rightarrow>
             (let w0 = native (UnloadAsync h) w in
              case unloadAsync eng of
                Rejects e \<Rightarrow> Inl (e, w0)
              | Resolves _ \<Rightarrow> Inr (w0\<lparr>loadedSounds := loadedSounds w0 - {h}\<rparr>)))
      in case unloaded of
           Inl (e, w1) \<Rightarrow> (console_error ''Error playing song:'' e w1, Fulfilled)
         | Inr w1 \<Rightarrow>
             (let w2 = (if length (playlist w) = 0 \<and> length (masterPlaylist w) > 0
                        then w1\<lparr>playlist := masterPlaylist w\<rparr> else w1)
              in case song of
                   None \<Rightarrow> (console_error ''Error playing song:'' ''TypeError'' w2, Fulfilled)
                 | Some s \<Rightarrow>
                     (let w3 = native (CreateAsync (filePath s)) w2 in
                      case createAsync eng of
                        Rejects e \<Rightarrow> (console_error ''Error playing song:'' e w3, Fulfilled)
                      | Resolves _ \<Rightarrow>
                          (let h' = soundsCreated w3 in
                           (w3\<lparr>loadedSounds := insert h' (loadedSounds w3),
                               soundsCreated := Suc h',
                               playbackInstance := Some h',
                               currentSong := Some s,
                               isPlaying := True\<rparr>, Fulfilled)))))"

text \<open>\<^verbatim>\<open>pauseSong\<close> (lines 135 to 143).\<close>

definition pauseSong :: "engine \<Rightarrow> player \<Rightarrow> player \<times> outcome" where
  "pauseSong eng w =
     (case playbackInstance w of
        None \<Rightarrow> (w, Fulfilled)
      | Some h \<Rightarrow>
          (let w0 = native (PauseAsync h) w in
           case pauseAsync eng of
             Rejects e \<Rightarrow> (console_error ''Error pausing song:'' e w0, Fulfilled)
           | Resolves _ \<Rightarrow> (w0, Fulfilled)))"

text \<open>\<^verbatim>\<open>resumeSong\<close> (lines 145 to 153).\<close>

definition resumeSong :: "engine \<Rightarrow> player \<Rightarrow> player \<times> outcome" where
  "resumeSong eng w =
     (case playbackInstance w of
        None \<Rightarrow> (w, Fulfilled)
      | Some h \<Rightarrow>
          (let w0 = native (PlayAsync h) w in
           case playAsync eng of
             Rejects e \<Rightarrow> (console_error ''Error resuming song:'' e w0, Fulfilled)
           | Resolves _ \<Rightarrow> (w0, Fulfilled)))"

text \<open>\<^verbatim>\<open>seekTo\<close> (lines 155 to 159): no \<^verbatim>\<open>try\<close>; a rejection of the awaited native
  call rejects the promise of the handler.\<close>

definition seekTo :: "engine \<Rightarrow> int \<Rightarrow> player \<Rightarrow> player \<times> outcome" where
  "seekTo eng pos w =
     (case playbackInstance w of
        None \<Rightarrow> (w, Fulfilled)
      | Some h \<Rightarrow>
          (let w0 = native (SetPositionAsync h pos) w in
           case setPositionAsync eng of
             Rejects e \<Rightarrow> (w0, Rejected e)
           | Resolves _ \<Rightarrow> (w0, Fulfilled)))"

text \<open>\<^verbatim>\<open>getCurrentSongIndex\<close> (lines 161 to 176).\<close>

definition getCurrentSongIndex :: "'a cells_scheme \<Rightarrow> int" where
  "getCurrentSongIndex w =
     (case currentSong w of
        None \<Rightarrow> - 1
      | Some c \<Rightarrow>
          (let index = (if length (playlist w) > 0
                        then findIndex (\<lambda>song. song_id song = song_id c) (playlist w)
                        else - 1)
           in if length (playlist w) > 0 \<and> index \<noteq> - 1 then index
              else if length (masterPlaylist w) > 0
                then findIndex (\<lambda>song. song_id song = song_id c) (masterPlaylist w)
                else - 1))"

text \<open>\<^verbatim>\<open>getEffectivePlaylist\<close> (lines 178 to 181).\<close>

definition getEffectivePlaylist :: "'a cells_scheme \<Rightarrow> DownloadedSong list" where
  "getEffectivePlaylist w = (if length (playlist w) > 0 then playlist w else masterPlaylist w)"

text \<open>\<^verbatim>\<open>playNextSong\<close> (lines 183 to 192). The remainder \<^verbatim>\<open>%\<close> of JavaScript
  truncates towards zero: it is \<open>smod\<close>.\<close>

definition playNextSong :: "engine \<Rightarrow> player \<Rightarrow> player \<times> outcome" where
  "playNextSong eng w =
     (let effectivePlaylist = getEffectivePlaylist w in
      if length effectivePlaylist = 0 then (w, Fulfilled)
      else
        (let currentIndex = getCurrentSongIndex w in
         if currentIndex = - 1 then (w, Fulfilled)
         else
           (let nextIndex = (currentIndex + 1) smod int (length effectivePlaylist)
            in playSong eng (element_at effectivePlaylist nextIndex) w)))"

text \<open>\<^verbatim>\<open>playPreviousSong\<close> (lines 194 to 203).\<close>

definition playPreviousSong :: "engine \<Rightarrow> player \<Rightarrow> player \<times> outcome" where
  "playPreviousSong eng w =
     (let effectivePlaylist = getEffectivePlaylist w in
      if length effectivePlaylist = 0 then (w, Fulfilled)
      else
        (let currentIndex = getCurrentSongIndex w in
         if currentIndex = - 1 then (w, Fulfilled)
         else
           (let previousIndex =
                  (currentIndex - 1 + int (length effectivePlaylist))
                    smod int (length effectivePlaylist)
            in playSong eng (element_at effectivePlaylist previousIndex) w)))"

text \<open>\<^verbatim>\<open>stopSong\<close> (lines 205 to 215): no \<^verbatim>\<open>try\<close>; when a native call rejects, the
  statements after it are not executed and the promise of the handler is rejected.\<close>

definition stopSong :: "engine \<Rightarrow> player \<Rightarrow> player \<times> outcome" where
  "stopSong eng w =
     (let released =
        (case playbackInstance w of
           None \<Rightarrow> Inr w
         | Some h \<Rightarrow>
             (let w0 = native (StopAsync h) w in
              case stopAsync eng of
                Rejects e \<Rightarrow> Inl (e, w0)
              | Resolves _ \<Rightarrow>
                  (let w1 = native (UnloadAsync h) w0 in
                   case unloadAsync eng of
                     Rejects e \<Rightarrow> Inl (e, w1)
                   | Resolves _ \<Rightarrow>
                       Inr (w1\<lparr>loadedSounds := loadedSounds w1 - {h},
                               playbackInstance := None\<rparr>))))
      in case released of
           Inl (e, w2) \<Rightarrow> (w2, Rejected e)
         | Inr w2 \<Rightarrow>
             (w2\<lparr>currentSong := None, isPlaying := False, position := 0, duration := 0\<rparr>,
              Fulfilled))"

text \<open>\<^verbatim>\<open>stopSongAndClear\<close> (lines 217 to 219): awaits \<^verbatim>\<open>stopSong()\<close> and does nothing
  else; a rejection of the awaited promise rejects its own.\<close>

definition stopSongAndClear :: "engine \<Rightarrow> player \<Rightarrow> player \<times> outcome" where
  "stopSongAndClear eng w =
     (case stopSong eng w of
        (w', Rejected e) \<Rightarrow> (w', Rejected e)
      | (w', Fulfilled) \<Rightarrow> (w', Fulfilled))"

text \<open>\<^verbatim>\<open>setPlaylistWithMaster\<close> (lines 221 to 226), exported as \<^verbatim>\<open>setPlaylist\<close>.\<close>

definition setPlaylistWithMaster :: "DownloadedSong list \<Rightarrow> player \<Rightarrow> player" where
  "setPlaylistWithMaster songs w =
     (let w1 = w\<lparr>playlist := songs\<rparr>
      in if length songs > 0 then w1\<lparr>masterPlaylist := songs\<rparr> else w1)"

section \<open>The operations, called from a given render\<close>

text \<open>
  The same functions with the render they were created in as the argument \<open>r\<close>: every
  read of a state cell in the source is a read of \<open>r\<close>, every state setter writes to
  the current state \<open>w\<close>, and the native calls act on the environment of \<open>w\<close>.
  With the render of \<open>w\<close> itself for \<open>r\<close> each one is the definition above.
\<close>

definition playSong_from ::
  "cells \<Rightarrow> engine \<Rightarrow> DownloadedSong option \<Rightarrow> player \<Rightarrow> player \<times> outcome" where
  "playSong_from r eng song w =
     (let unloaded =
        (case playbackInstance r of
           None \<Rightarrow> Inr w
         | Some h \<Rightarrow>
             (let w0 = native (UnloadAsync h) w in
              case unloadAsync eng of
                Rejects e \<Rightarrow> Inl (e, w0)
              | Resolves _ \<Rightarrow> Inr (w0\<lparr>loadedSounds := loadedSounds w0 - {h}\<rparr>)))
      in case unloaded of
           Inl (e, w1) \<Rightarrow> (console_error ''Error playing song:'' e w1, Fulfilled)
         | Inr w1 \<Rightarrow>
             (let w2 = (if length (playlist r) = 0 \<and> length (masterPlaylist r) > 0
                        then w1\<lparr>playlist := masterPlaylist r\<rparr> else w1)
              in case song of
                   None \<Rightarrow> (console_error ''Error playing song:'' ''TypeError'' w2, Fulfilled)
                 | Some s \<Rightarrow>
                     (let w3 = native (CreateAsync (filePath s)) w2 in
                      case createAsync eng of
                        Rejects e \<Rightarrow> (console_error ''Error playing song:'' e w3, Fulfilled)
                      | Resolves _ \<Rightarrow>
                          (let h' = soundsCreated w3 in
                           (w3\<lparr>loadedSounds := insert h' (loadedSounds w3),
                               soundsCreated := Suc h',
                               playbackInstance := Some h',
                               currentSong := Some s,
                               isPlaying := True\<rparr>, Fulfilled)))))"

definition pauseSong_from :: "cells \<Rightarrow> engine \<Rightarrow> player \<Rightarrow> player \<times> outcome" where
  "pauseSong_from r eng w =
     (case playbackInstance r of
        None \<Rightarrow> (w, Fulfilled)
      | Some h \<Rightarrow>
          (let w0 = native (PauseAsync h) w in
           case pauseAsync eng of
             Rejects e \<Rightarrow> (console_error ''Error pausing song:'' e w0, Fulfilled)
           | Resolves _ \<Rightarrow> (w0, Fulfilled)))"

definition resumeSong_from :: "cells \<Rightarrow> engine \<Rightarrow> player \<Rightarrow> player \<times> outcome" where
  "resumeSong_from r eng w =
     (case playbackInstance r of
        None \<Rightarrow> (w, Fulfilled)
      | Some h \<Rightarrow>
          (let w0 = native (PlayAsync h) w in
           case playAsync eng of
             Rejects e \<Rightarrow> (console_error ''Error resuming song:'' e w0, Fulfilled)
           | Resolves _ \<Rightarrow> (w0, Fulfilled)))"

definition seekTo_from :: "cells \<Rightarrow> engine \<Rightarrow> int \<Rightarrow> player \<Rightarrow> player \<times> outcome" where
  "seekTo_from r eng pos w =
     (case playbackInstance r of
        None \<Rightarrow> (w, Fulfilled)
      | Some h \<Rightarrow>
          (let w0 = native (SetPositionAsync h pos) w in
           case setPositionAsync eng of
             Rejects e \<Rightarrow> (w0, Rejected e)
           | Resolves _ \<Rightarrow> (w0, Fulfilled)))"

definition playNextSong_from :: "cells \<Rightarrow> engine \<Rightarrow> player \<Rightarrow> player \<times> outcome" where
  "playNextSong_from r eng w =
     (let effectivePlaylist = getEffectivePlaylist r in
      if length effectivePlaylist = 0 then (w, Fulfilled)
      else
        (let currentIndex = getCurrentSongIndex r in
         if currentIndex = - 1 then (w, Fulfilled)
         else
           (let nextIndex = (currentIndex + 1) smod int (length effectivePlaylist)
            in playSong_from r eng (element_at effectivePlaylist nextIndex) w)))"

definition playPreviousSong_from :: "cells \<Rightarrow> engine \<Rightarrow> player \<Rightarrow> player \<times> outcome" where
  "playPreviousSong_from r eng w =
     (let effectivePlaylist = getEffectivePlaylist r in
      if length effectivePlaylist = 0 then (w, Fulfilled)
      else
        (let currentIndex = getCurrentSongIndex r in
         if currentIndex = - 1 then (w, Fulfilled)
         else
           (let previousIndex =
                  (currentIndex - 1 + int (length effectivePlaylist))
                    smod int (length effectivePlaylist)
            in playSong_from r eng (element_at effectivePlaylist previousIndex) w)))"

definition stopSong_from :: "cells \<Rightarrow> engine \<Rightarrow> player \<Rightarrow> player \<times> outcome" where
  "stopSong_from r eng w =
     (let released =
        (case playbackInstance r of
           None \<Rightarrow> Inr w
         | Some h \<Rightarrow>
             (let w0 = native (StopAsync h) w in
              case stopAsync eng of
                Rejects e \<Rightarrow> Inl (e, w0)
              | Resolves _ \<Rightarrow>
                  (let w1 = native (UnloadAsync h) w0 in
                   case unloadAsync eng of
                     Rejects e \<Rightarrow> Inl (e, w1)
                   | Resolves _ \<Rightarrow>
                       Inr (w1\<lparr>loadedSounds := loadedSounds w1 - {h},
                               playbackInstance := None\<rparr>))))
      in case released of
           Inl (e, w2) \<Rightarrow> (w2, Rejected e)
         | Inr w2 \<Rightarrow>
             (w2\<lparr>currentSong := None, isPlaying := False, position := 0, duration := 0\<rparr>,
              Fulfilled))"

definition stopSongAndClear_from :: "cells \<Rightarrow> engine \<Rightarrow> player \<Rightarrow> player \<times> outcome" where
  "stopSongAndClear_from r eng w =
     (case stopSong_from r eng w of
        (w', Rejected e) \<Rightarrow> (w', Rejected e)
      | (w', Fulfilled) \<Rightarrow> (w', Fulfilled))"

text \<open>
  \<^verbatim>\<open>updatePlaybackStatus\<close> (lines 78 to 89) of the render \<open>r\<close>, the callback the
  engine calls with a status report: the three setters write to the current state, and
  \<^verbatim>\<open>playNextSong()\<close> of the same render is called and not awaited, so it is left
  among the pending calls with the render \<open>r\<close>.
\<close>

definition updatePlaybackStatus_from :: "cells \<Rightarrow> AVPlaybackStatus \<Rightarrow> player \<Rightarrow> player" where
  "updatePlaybackStatus_from r status w =
     (case status of
        NotLoaded \<Rightarrow> w
      | Loaded playing dur pos finished \<Rightarrow>
          (let w1 = w\<lparr>isPlaying := playing, duration := or_zero dur, position := pos\<rparr>
           in if finished then w1\<lparr>pending := pending w1 @ [(r, Next)]\<rparr> else w1))"

text \<open>
  The callback of the position timer (lines 61 to 76) of the render \<open>r\<close>, when the status
  it asked for arrives. The interval exists only while \<^verbatim>\<open>isPlaying\<close>; the argument is
  what \<^verbatim>\<open>getStatusAsync\<close> answers. A rejection is an unhandled rejection inside the
  timer callback and changes no state.
\<close>

definition pollPosition_from :: "cells \<Rightarrow> AVPlaybackStatus reply \<Rightarrow> player \<Rightarrow> player" where
  "pollPosition_from r answer w =
     (if isPlaying r then
        (case playbackInstance r of
           None \<Rightarrow> w
         | Some h \<Rightarrow>
             (case answer of
                Rejects e \<Rightarrow> w
              | Resolves status \<Rightarrow>
                  (case status of
                     NotLoaded \<Rightarrow> w
                   | Loaded playing dur pos finished \<Rightarrow> w\<lparr>position := pos\<rparr>)))
      else w)"

text \<open>An exported operation, called from the render \<open>r\<close>, run to its end.\<close>

fun perform :: "cells \<Rightarrow> operation \<Rightarrow> engine \<Rightarrow> player \<Rightarrow> player \<times> outcome" where
  "perform r (Play song) eng w = playSong_from r eng (Some song) w"
| "perform r Pause eng w = pauseSong_from r eng w"
| "perform r Resume eng w = resumeSong_from r eng w"
| "perform r (Seek pos) eng w = seekTo_from r eng pos w"
| "perform r Next eng w = playNextSong_from r eng w"
| "perform r Previous eng w = playPreviousSong_from r eng w"
| "perform r Stop eng w = stopSong_from r eng w"
| "perform r StopAndClear eng w = stopSongAndClear_from r eng w"

section \<open>The effects\<close>

text \<open>
  The effect of lines 102 to 106, run by React after a render in which \<^verbatim>\<open>playlist\<close>
  has changed: a non-empty playlist is copied to the master playlist.
\<close>

definition syncMasterPlaylist :: "player \<Rightarrow> player" where
  "syncMasterPlaylist w = (if length (playlist w) > 0 then w\<lparr>masterPlaylist := playlist w\<rparr> else w)"

text \<open>
  The effect of lines 92 to 99, run after a render in which \<^verbatim>\<open>playbackInstance\<close> has
  changed: its cleanup takes the callback off the previous instance, and
  \<^verbatim>\<open>updatePlaybackStatus\<close> of the new render is registered on the new instance, when
  there is one. State updates made together are rendered together (React batches them),
  so the render registered is the one after the handler's setters; under a root that
  does not batch it is the render after \<^verbatim>\<open>setPlaybackInstance\<close> alone, with the
  current song of before. The callback
  \<^verbatim>\<open>createAsync\<close> is given at line 124 is replaced by this registration as soon as
  the new instance is rendered and is not modelled apart.
\<close>

definition registerListener :: "player \<Rightarrow> player" where
  "registerListener w =
     w\<lparr>listener := (case playbackInstance w of None \<Rightarrow> None | Some h \<Rightarrow> Some (closure_of w))\<rparr>"

definition afterRender :: "player \<Rightarrow> player \<Rightarrow> player" where
  "afterRender before w =
     (let w1 = (if playlist w \<noteq> playlist before then syncMasterPlaylist w else w)
      in if playbackInstance w1 \<noteq> playbackInstance before then registerListener w1 else w1)"

section \<open>Sequences of operations\<close>

text \<open>
  What can happen to the provider, one event at a time:
  \<^item> \<^verbatim>\<open>setPlaylist\<close> is called; it is synchronous.
  \<^item> An exported operation is called: the call is recorded with the current render.
  \<^item> The native calls of a recorded call settle, with the given answers: the call runs to
    its end, reading the render it was recorded with. Calls settle in any order, and
    anything may happen between a call and its settlement; this is how two calls
    overlap.
  \<^item> The engine reports a status to the callback registered on the playback instance.
  \<^item> The position timer ticks, and later the status it asked for arrives.

  After each event React renders and runs the effects. All writes of a call are placed
  at its settlement.
\<close>

datatype event =
    SetPlaylist "DownloadedSong list"
  | Called operation
  | Settled nat engine
  | Reported AVPlaybackStatus
  | TickStarted
  | TickSettled nat "AVPlaybackStatus reply"

text \<open>A list without its entry at index \<open>k\<close>.\<close>

definition without :: "nat \<Rightarrow> 'a list \<Rightarrow> 'a list" where
  "without k xs = take k xs @ drop (Suc k) xs"

fun handler :: "event \<Rightarrow> player \<Rightarrow> player" where
  "handler (SetPlaylist songs) w = setPlaylistWithMaster songs w"
| "handler (Called op) w = w\<lparr>pending := pending w @ [(closure_of w, op)]\<rparr>"
| "handler (Settled k eng) w =
     (if k < length (pending w)
      then fst (perform (fst (pending w ! k)) (snd (pending w ! k)) eng
                  (w\<lparr>pending := without k (pending w)\<rparr>))
      else w)"
| "handler (Reported status) w =
     (case listener w of None \<Rightarrow> w | Some r \<Rightarrow> updatePlaybackStatus_from r status w)"
| "handler TickStarted w = w\<lparr>polls := polls w @ [closure_of w]\<rparr>"
| "handler (TickSettled k answer) w =
     (if k < length (polls w)
      then pollPosition_from (polls w ! k) answer (w\<lparr>polls := without k (polls w)\<rparr>)
      else w)"

definition step :: "event \<Rightarrow> player \<Rightarrow> player" where
  "step e w = afterRender w (handler e w)"

fun run :: "player \<Rightarrow> event list \<Rightarrow> player" where
  "run w [] = w"
| "run w (e # es) = run (step e w) es"


text \<open>An engine whose every call succeeds.\<close>

definition obliging :: engine where
  "obliging =
     \<lparr> unloadAsync = Resolves (), createAsync = Resolves (), pauseAsync = Resolves (),
       playAsync = Resolves (), setPositionAsync = Resolves (), stopAsync = Resolves () \<rparr>"

text \<open>An operation called and settled with nothing in between, and a tick of the timer
  answered at once.\<close>

definition uninterrupted :: "operation \<Rightarrow> engine \<Rightarrow> event list" where
  "uninterrupted op eng = [Called op, Settled 0 eng]"

definition tick :: "AVPlaybackStatus reply \<Rightarrow> event list" where
  "tick answer = [TickStarted, TickSettled 0 answer]"

section \<open>The tab shell\<close>

text \<open>
  \<^verbatim>\<open>TabsLayout\<close> of \<^verbatim>\<open>src/app/_layout.tsx\<close> (lines 18 to 123), reduced to what
  depends on the playback state: the bottom padding of the scene container and the third
  child of the root view, the overlay that wraps \<^verbatim>\<open>MiniPlayer\<close>. The platform is the
  value of \<^verbatim>\<open>Platform.OS\<close>, an input.

  The current route is read at lines 20 and 21 as the property \<^verbatim>\<open>pathname\<close> of the
  object \<^verbatim>\<open>useRouter()\<close> returns. The library expo-router is not among the sources;
  its router object is taken as the library documents it: an object of navigation
  methods, the same on every screen. The path of the screen shown is what the hook
  \<^verbatim>\<open>usePathname()\<close> returns, which the component does not call.
\<close>

datatype platform = Android | Ios | Web

datatype display = DisplayNone | DisplayFlex

text \<open>A JavaScript value, as far as the component handles one, and an object as the list
  of its properties. Reading a property the object does not have gives \<^verbatim>\<open>undefined\<close>,
  here \<open>None\<close>.\<close>

datatype js_value = JsString string | JsFunction

type_synonym js_object = "(string \<times> js_value) list"

definition property :: "js_object \<Rightarrow> string \<Rightarrow> js_value option" where
  "property obj name = map_of obj name"

text \<open>The object \<^verbatim>\<open>useRouter()\<close> returns while the screen with the given path is shown.\<close>

definition useRouter :: "string \<Rightarrow> js_object" where
  "useRouter screen =
     [(''push'', JsFunction), (''replace'', JsFunction), (''back'', JsFunction),
      (''canGoBack'', JsFunction), (''setParams'', JsFunction), (''navigate'', JsFunction),
      (''dismiss'', JsFunction), (''dismissAll'', JsFunction), (''canDismiss'', JsFunction)]"

record overlay =
  bottom :: int
  height :: int
  display :: display

text \<open>The value of a JSX child expression: React renders \<^verbatim>\<open>null\<close> and \<^verbatim>\<open>false\<close>
  as nothing.\<close>

datatype 'a jsx = JsNull | JsFalse | Element 'a

fun rendered :: "'a jsx \<Rightarrow> bool" where
  "rendered JsNull = False"
| "rendered JsFalse = False"
| "rendered (Element x) = True"

record tabs_layout =
  scenePaddingBottom :: int
  miniPlayer :: "overlay jsx"

definition MINI_PLAYER_HEIGHT :: int where
  "MINI_PLAYER_HEIGHT = 67"

definition TAB_BAR_HEIGHT :: "platform \<Rightarrow> int" where
  "TAB_BAR_HEIGHT os = (if os = Android then 70 else 60)"

text \<open>
  What the component returns (lines 23 to 122) for a value of \<^verbatim>\<open>currentRoute\<close>.
  \<^verbatim>\<open>a && b && c\<close> yields the first falsy operand: \<^verbatim>\<open>null\<close> when there is no
  current song, \<^verbatim>\<open>false\<close> when the comparison of the route fails. The comparison
  \<^verbatim>\<open>!==\<close> with a string is true of \<^verbatim>\<open>undefined\<close>.
\<close>

definition TabsLayout_returns ::
  "platform \<Rightarrow> DownloadedSong option \<Rightarrow> js_value option \<Rightarrow> tabs_layout" where
  "TabsLayout_returns os song currentRoute =
     \<lparr> scenePaddingBottom =
         (if song \<noteq> None \<and> currentRoute \<noteq> Some (JsString ''/player'')
          then MINI_PLAYER_HEIGHT else 0),
       miniPlayer =
         (case song of
            None \<Rightarrow> JsNull
          | Some s \<Rightarrow>
              (if currentRoute \<noteq> Some (JsString ''/player'')
               then Element \<lparr> bottom = TAB_BAR_HEIGHT os, height = MINI_PLAYER_HEIGHT,
                              display = (if currentRoute = Some (JsString ''/player'')
                                         then DisplayNone else DisplayFlex) \<rparr>
               else JsFalse)) \<rparr>"

text \<open>The component on the screen with the given path: lines 19 to 21 read the current song
  from the context and the current route from the router.\<close>

definition TabsLayout :: "platform \<Rightarrow> DownloadedSong option \<Rightarrow> string \<Rightarrow> tabs_layout" where
  "TabsLayout os song screen =
     (let router = useRouter screen;
          currentRoute = property router ''pathname''
      in TabsLayout_returns os song currentRoute)"

section \<open>Notions of the specification\<close>

text \<open>The invariant the spec gives for the position: it lies between 0 and the duration.\<close>

definition timed :: "player \<Rightarrow> bool" where
  "timed w = (0 \<le> position w \<and> position w \<le> duration w)"

text \<open>
  What the engine reports is in range when a loaded status report carries a position
  between 0 and its own duration (0 when the report has none), and a polled status a
  position between 0 and the duration the provider holds.
\<close>

fun reports_in_range :: "player \<Rightarrow> event \<Rightarrow> bool" where
  "reports_in_range w (Reported (Loaded playing dur pos finished)) =
     (0 \<le> pos \<and> pos \<le> or_zero dur)"
| "reports_in_range w (TickSettled k (Resolves (Loaded playing dur pos finished))) =
     (0 \<le> pos \<and> pos \<le> duration w)"
| "reports_in_range w e = True"

fun all_in_range :: "player \<Rightarrow> event list \<Rightarrow> bool" where
  "all_in_range w [] = True"
| "all_in_range w (e # es) = (reports_in_range w e \<and> all_in_range (step e w) es)"




text \<open>The operations that unload or load a sound: all but pausing, resuming and seeking.\<close>

fun changes_instance :: "operation \<Rightarrow> bool" where
  "changes_instance Pause = False"
| "changes_instance Resume = False"
| "changes_instance (Seek pos) = False"
| "changes_instance op = True"

text \<open>
  A call of such an operation settles in time when the provider still holds the playback
  instance of the render the call was made from; in a sequence of events in which every
  such call does, none of them overlaps with one that changes the instance.
\<close>

fun settles_in_time :: "player \<Rightarrow> event \<Rightarrow> bool" where
  "settles_in_time w (Settled k eng) =
     (k < length (pending w) \<and> changes_instance (snd (pending w ! k)) \<longrightarrow>
        playbackInstance (fst (pending w ! k)) = playbackInstance w)"
| "settles_in_time w e = True"

fun all_in_time :: "player \<Rightarrow> event list \<Rightarrow> bool" where
  "all_in_time w [] = True"
| "all_in_time w (e # es) = (settles_in_time w e \<and> all_in_time (step e w) es)"

text \<open>No sound but the one the provider holds is loaded.\<close>

definition single_handle :: "player \<Rightarrow> bool" where
  "single_handle w = (loadedSounds w \<subseteq> set_option (playbackInstance w))"

section \<open>Concrete scenarios\<close>

definition songA :: DownloadedSong where
  "songA = \<lparr>song_id = ''a'', filePath = ''/music/a.mp3''\<rparr>"

definition songB :: DownloadedSong where
  "songB = \<lparr>song_id = ''b'', filePath = ''/music/b.mp3''\<rparr>"

definition songC :: DownloadedSong where
  "songC = \<lparr>song_id = ''c'', filePath = ''/music/c.mp3''\<rparr>"

text \<open>A playlist in which one song occurs twice, and the state after playing its first
  entry and skipping forward twice: the current song is then the entry at index 2.\<close>

definition repeating :: "DownloadedSong list" where
  "repeating = [songA, songB, songA, songC]"

definition in_repeating :: player where
  "in_repeating = run initial (SetPlaylist repeating # uninterrupted (Play songA) obliging
      @ uninterrupted Next obliging @ uninterrupted Next obliging)"

text \<open>A status report of a track whose duration the engine cannot read, and one of a track
  of three minutes followed by a tick of the position timer.\<close>

definition no_duration :: "event list" where
  "no_duration = uninterrupted (Play songA) obliging @ [Reported (Loaded True None 500 False)]"

definition with_duration :: "event list" where
  "with_duration = uninterrupted (Play songA) obliging
      @ [Reported (Loaded True (Some 180000) 500 False)]
      @ tick (Resolves (Loaded True (Some 180000) 1500 False))"

text \<open>The state after a song was played and the load of a second one failed: the provider
  still holds the sound of the first song, which has been unloaded.\<close>

definition load_fails :: engine where
  "load_fails = obliging\<lparr>createAsync := Rejects ''load failed''\<rparr>"

definition after_failed_load :: player where
  "after_failed_load = run initial (uninterrupted (Play songA) obliging
      @ uninterrupted (Play songB) load_fails)"

definition refuses :: engine where
  "refuses =
     \<lparr> unloadAsync = Rejects ''sound is not loaded'', createAsync = Rejects ''sound is not loaded'',
       pauseAsync = Rejects ''sound is not loaded'', playAsync = Rejects ''sound is not loaded'',
       setPositionAsync = Rejects ''sound is not loaded'',
       stopAsync = Rejects ''sound is not loaded'' \<rparr>"

text \<open>A state whose current song is in neither playlist.\<close>

definition off_list :: player where
  "off_list = run initial (uninterrupted (Play songA) obliging @ [SetPlaylist [songB, songC]])"

text \<open>A sequence that sets a playlist and plays its second song.\<close>

definition before_clearing :: "event list" where
  "before_clearing = SetPlaylist [songA, songB, songC] # uninterrupted (Play songB) obliging"



text \<open>The report that the track, of 200 seconds, has just finished.\<close>

definition finished :: AVPlaybackStatus where
  "finished = Loaded False (Some 200000) 200000 True"

text \<open>
  A song is played while the playlist is empty, then the playlist a, b is set and the
  track finishes: the report goes to the callback of the render after the song was
  loaded, and the \<^verbatim>\<open>playNextSong\<close> it starts settles.
\<close>

definition playlist_set_later :: "event list" where
  "playlist_set_later = uninterrupted (Play songA) obliging
      @ [SetPlaylist [songA, songB], Reported finished, Settled 0 obliging]"

text \<open>The playlist a, b is set, a is played and the track finishes.\<close>

definition playlist_set_first :: "event list" where
  "playlist_set_first = SetPlaylist [songA, songB] # uninterrupted (Play songA) obliging
      @ [Reported finished, Settled 0 obliging]"

text \<open>The playlist a, b is set and a is played; then the playlist a, c is set and the track
  finishes.\<close>

definition playlist_replaced :: "event list" where
  "playlist_replaced = SetPlaylist [songA, songB] # uninterrupted (Play songA) obliging
      @ [SetPlaylist [songA, songC], Reported finished, Settled 0 obliging]"

text \<open>Two calls of \<^verbatim>\<open>playSong\<close> from the same render (a double tap): the second is made
  before the native calls of the first settle.\<close>

definition double_tap :: "event list" where
  "double_tap = [Called (Play songA), Called (Play songB), Settled 0 obliging, Settled 0 obliging]"


section \<open>The two definitions of an operation agree\<close>

lemma closure_cells:
  "currentSong (closure_of w) = currentSong w"
  "isPlaying (closure_of w) = isPlaying w"
  "playbackInstance (closure_of w) = playbackInstance w"
  "duration (closure_of w) = duration w"
  "position (closure_of w) = position w"
  "playlist (closure_of w) = playlist w"
  "masterPlaylist (closure_of w) = masterPlaylist w"
  by (simp_all add: closure_of_def)

lemma closure_reads:
  "getEffectivePlaylist (closure_of w) = getEffectivePlaylist w"
  "getCurrentSongIndex (closure_of w) = getCurrentSongIndex w"
  by (simp_all add: closure_cells getEffectivePlaylist_def getCurrentSongIndex_def Let_def
      split: option.split)

lemma playSong_from_current: "playSong_from (closure_of w) eng song w = playSong eng song w"
  by (simp add: playSong_from_def playSong_def closure_cells cong: sum.case_cong if_cong)

lemma pauseSong_from_current: "pauseSong_from (closure_of w) eng w = pauseSong eng w"
  by (simp add: pauseSong_from_def pauseSong_def closure_cells)

lemma resumeSong_from_current: "resumeSong_from (closure_of w) eng w = resumeSong eng w"
  by (simp add: resumeSong_from_def resumeSong_def closure_cells)

lemma seekTo_from_current: "seekTo_from (closure_of w) eng pos w = seekTo eng pos w"
  by (simp add: seekTo_from_def seekTo_def closure_cells)

lemma playNextSong_from_current: "playNextSong_from (closure_of w) eng w = playNextSong eng w"
  by (simp add: playNextSong_from_def playNextSong_def closure_reads playSong_from_current
      Let_def)

lemma playPreviousSong_from_current:
  "playPreviousSong_from (closure_of w) eng w = playPreviousSong eng w"
  by (simp add: playPreviousSong_from_def playPreviousSong_def closure_reads
      playSong_from_current Let_def)

lemma stopSong_from_current: "stopSong_from (closure_of w) eng w = stopSong eng w"
  by (simp add: stopSong_from_def stopSong_def closure_cells)

lemma stopSongAndClear_from_current:
  "stopSongAndClear_from (closure_of w) eng w = stopSongAndClear eng w"
  by (simp add: stopSongAndClear_from_def stopSongAndClear_def stopSong_from_current)

lemmas from_current = playSong_from_current pauseSong_from_current resumeSong_from_current
  seekTo_from_current playNextSong_from_current playPreviousSong_from_current
  stopSong_from_current stopSongAndClear_from_current

text \<open>An operation called and settled with nothing in between, while no other call is
  pending, is the first definition of the operation followed by the effects.\<close>

lemma without_last: "without (length xs) (xs @ [x]) = xs"
  by (simp add: without_def)

lemma afterRender_same: 
  "playlist w' = playlist w \<Longrightarrow> playbackInstance w' = playbackInstance w \<Longrightarrow> afterRender w w' = w'"
  by (simp add: afterRender_def)

lemma afterRender_before:
  "playlist b' = playlist b \<Longrightarrow> playbackInstance b' = playbackInstance b \<Longrightarrow>
     afterRender b' w = afterRender b w"
  by (simp add: afterRender_def)

lemma step_Called: "step (Called op) w = w\<lparr>pending := pending w @ [(closure_of w, op)]\<rparr>"
  by (simp add: step_def afterRender_same)


lemma run_uninterrupted:
  assumes "pending w = []"
  shows "run w (uninterrupted op eng) = afterRender w (fst (perform (closure_of w) op eng w))"
proof -
  let ?c = "closure_of w"
  let ?w1 = "w\<lparr>pending := [(?c, op)]\<rparr>"
  have s1: "step (Called op) w = ?w1" using assms by (simp add: step_Called)
  have undone: "?w1\<lparr>pending := without 0 (pending ?w1)\<rparr> = w"
    using assms by (cases w) (simp add: without_def)
  have "handler (Settled 0 eng) ?w1
      = fst (perform (fst (pending ?w1 ! 0)) (snd (pending ?w1 ! 0)) eng
               (?w1\<lparr>pending := without 0 (pending ?w1)\<rparr>))"
    by simp
  also have "\<dots> = fst (perform ?c op eng w)"
    unfolding undone by simp
  finally have h: "handler (Settled 0 eng) ?w1 = fst (perform ?c op eng w)" .
  have "step (Settled 0 eng) ?w1 = afterRender ?w1 (fst (perform ?c op eng w))"
    unfolding step_def h ..
  also have "\<dots> = afterRender w (fst (perform ?c op eng w))"
    by (rule afterRender_before) simp_all
  finally show ?thesis by (simp add: uninterrupted_def s1)
qed


lemma run_append: "run w (es @ es') = run (run w es) es'"
  by (induction es arbitrary: w) simp_all

section \<open>Facts about the helpers\<close>

lemma smod_nonneg: "0 \<le> a \<Longrightarrow> 0 < b \<Longrightarrow> (a::int) smod b = a mod b"
  by (simp add: smod_int_alt_def sgn_if)

lemma findIndexFrom_none: "0 \<le> k \<Longrightarrow> (findIndexFrom k P xs = - 1) = (\<forall>x\<in>set xs. \<not> P x)"
  by (induction xs arbitrary: k) auto

lemma findIndexFrom_first:
  "i < length xs \<Longrightarrow> P (xs ! i) \<Longrightarrow> (\<forall>j<i. \<not> P (xs ! j)) \<Longrightarrow>
     findIndexFrom k P xs = k + int i"
proof (induction xs arbitrary: k i)
  case Nil
  then show ?case by simp
next
  case (Cons x xs)
  show ?case
  proof (cases i)
    case 0
    with Cons.prems show ?thesis by simp
  next
    case (Suc m)
    with Cons.prems have "\<not> P x" by auto
    moreover have "findIndexFrom (k + 1) P xs = k + 1 + int m"
    proof (rule Cons.IH)
      show "m < length xs" using Cons.prems Suc by simp
      show "P (xs ! m)" using Cons.prems Suc by simp
      show "\<forall>j<m. \<not> P (xs ! j)" using Cons.prems(3) Suc by auto
    qed
    ultimately show ?thesis using Suc by simp
  qed
qed

lemma findIndex_first:
  "i < length xs \<Longrightarrow> P (xs ! i) \<Longrightarrow> (\<forall>j<i. \<not> P (xs ! j)) \<Longrightarrow> findIndex P xs = int i"
  using findIndexFrom_first [of i xs P 0] by (simp add: findIndex_def)

lemma findIndex_none: "(findIndex P xs = - 1) = (\<forall>x\<in>set xs. \<not> P x)"
  by (simp add: findIndex_def findIndexFrom_none)



lemma element_at_mod:
  "xs \<noteq> [] \<Longrightarrow> 0 \<le> a \<Longrightarrow>
     element_at xs (a smod int (length xs)) = Some (xs ! (nat a mod length xs))"
  by (simp add: element_at_def smod_nonneg nat_mod_distrib)


lemma getCurrentSongIndex_first:
  assumes "currentSong w = Some c"
    and "eff = (if playlist w \<noteq> [] then playlist w else masterPlaylist w)"
    and "i < length eff"
    and "song_id (eff ! i) = song_id c"
    and "\<forall>j<i. song_id (eff ! j) \<noteq> song_id c"
  shows "getCurrentSongIndex w = int i"
proof -
  have fi: "findIndex (\<lambda>song. song_id song = song_id c) eff = int i"
    using assms(3-5) by (rule findIndex_first)
  show ?thesis
  proof (cases "playlist w = []")
    case True
    with assms(2,3) have "eff = masterPlaylist w" "masterPlaylist w \<noteq> []" by auto
    with True fi assms(1) show ?thesis by (simp add: getCurrentSongIndex_def)
  next
    case False
    with assms(2) have "eff = playlist w" by simp
    with False fi assms(1) show ?thesis by (simp add: getCurrentSongIndex_def)
  qed
qed

lemma effective_eq:
  "getEffectivePlaylist w = (if playlist w \<noteq> [] then playlist w else masterPlaylist w)"
  by (simp add: getEffectivePlaylist_def)

lemma playSong_succeeds:
  assumes "unloadAsync eng = Resolves ()" and "createAsync eng = Resolves ()"
  shows "currentSong (fst (playSong eng (Some s) w)) = Some s
     \<and> isPlaying (fst (playSong eng (Some s) w))
     \<and> playbackInstance (fst (playSong eng (Some s) w)) = Some (soundsCreated w)"
  using assms by (simp add: playSong_def native_def Let_def split: option.split)


lemma navigation_first:
  assumes "currentSong w = Some c"
    and "eff = (if playlist w \<noteq> [] then playlist w else masterPlaylist w)"
    and "i < length eff"
    and "song_id (eff ! i) = song_id c"
    and "\<forall>j<i. song_id (eff ! j) \<noteq> song_id c"
  shows "playNextSong eng w = playSong eng (Some (eff ! ((i + 1) mod length eff))) w
     \<and> playPreviousSong eng w
         = playSong eng (Some (eff ! ((i + length eff - 1) mod length eff))) w
     \<and> getCurrentSongIndex w = int i"
proof -
  have idx: "getCurrentSongIndex w = int i" using assms by (rule getCurrentSongIndex_first)
  have e: "getEffectivePlaylist w = eff" using assms(2) by (simp add: effective_eq)
  have ne: "eff \<noteq> []" using assms(3) by auto
  have nx: "element_at eff ((int i + 1) smod int (length eff))
              = Some (eff ! ((i + 1) mod length eff))"
    using element_at_mod [OF ne, of "int i + 1"] by (simp add: nat_add_distrib)
  have "nat (int i - 1 + int (length eff)) = i + length eff - 1"
    using assms(3) by simp
  moreover have "0 \<le> int i - 1 + int (length eff)" using assms(3) by simp
  ultimately have pv: "element_at eff ((int i - 1 + int (length eff)) smod int (length eff))
              = Some (eff ! ((i + length eff - 1) mod length eff))"
    using element_at_mod [OF ne, of "int i - 1 + int (length eff)"] by simp
  have "playNextSong eng w = playSong eng (Some (eff ! ((i + 1) mod length eff))) w"
    using ne by (simp add: playNextSong_def e idx nx)
  moreover have "playPreviousSong eng w
         = playSong eng (Some (eff ! ((i + length eff - 1) mod length eff))) w"
    using ne by (simp add: playPreviousSong_def e idx pv)
  ultimately show ?thesis using idx by simp
qed


section \<open>Evaluating the scenarios\<close>

lemmas eval_defs = initial_def step_def afterRender_def syncMasterPlaylist_def
     registerListener_def closure_of_def uninterrupted_def tick_def without_def
     setPlaylistWithMaster_def obliging_def playSong_from_def playNextSong_from_def
     playPreviousSong_from_def updatePlaybackStatus_from_def pollPosition_from_def
     playSong_def playNextSong_def playPreviousSong_def
     getEffectivePlaylist_def getCurrentSongIndex_def findIndex_def element_at_def native_def
     console_error_def Let_def smod_int_alt_def

lemma in_repeating_value: "in_repeating =
   \<lparr> currentSong = Some songA, isPlaying = True, playbackInstance = Some 2,
       duration = 0, position = 0, playlist = repeating, masterPlaylist = repeating,
       loadedSounds = {2}, soundsCreated = 3,
       nativeCalls = [CreateAsync ''/music/a.mp3'', UnloadAsync 0, CreateAsync ''/music/b.mp3'',
          UnloadAsync 1, CreateAsync ''/music/a.mp3''], console = [],
       listener = Some \<lparr> currentSong = Some songA, isPlaying = True,
          playbackInstance = Some 2, duration = 0, position = 0, playlist = repeating,
          masterPlaylist = repeating \<rparr>,
       pending = [], polls = [] \<rparr>"
  by (simp add: in_repeating_def eval_defs repeating_def songA_def songB_def songC_def)

section \<open>Navigation: next and previous\<close>

text \<open>
  Claim C1, as amended. Let the effective playlist (the active playlist if it is not
  empty, else the master playlist) be non-empty, and let \<open>i\<close> be the first index at which
  a song with the identifier of the current song occurs in it. Then \<^verbatim>\<open>playNextSong\<close>
  calls \<^verbatim>\<open>playSong\<close> with the song at index \<open>(i + 1) mod n\<close> and
  \<^verbatim>\<open>playPreviousSong\<close> with the song at index \<open>(i - 1 + n) mod n\<close> of that playlist,
  \<open>n\<close> being its length; the index \<^verbatim>\<open>getCurrentSongIndex\<close> computes is \<open>i\<close>. When
  the engine unloads and loads without failure, that song becomes the current song.
\<close>

theorem next_previous_wrap_around:
  assumes "currentSong w = Some c"
    and "eff = (if playlist w \<noteq> [] then playlist w else masterPlaylist w)"
    and "i < length eff"
    and "song_id (eff ! i) = song_id c"
    and "\<forall>j<i. song_id (eff ! j) \<noteq> song_id c"
  shows "playNextSong eng w = playSong eng (Some (eff ! ((i + 1) mod length eff))) w
     \<and> playPreviousSong eng w
         = playSong eng (Some (eff ! ((i + length eff - 1) mod length eff))) w
     \<and> getCurrentSongIndex w = int i
     \<and> (unloadAsync eng = Resolves () \<and> createAsync eng = Resolves () \<longrightarrow>
          currentSong (fst (playNextSong eng w)) = Some (eff ! ((i + 1) mod length eff))
          \<and> currentSong (fst (playPreviousSong eng w))
              = Some (eff ! ((i + length eff - 1) mod length eff)))"
proof -
  note nav = navigation_first [OF assms, of eng]
  have "currentSong (fst (playNextSong eng w)) = Some (eff ! ((i + 1) mod length eff))
      \<and> currentSong (fst (playPreviousSong eng w))
          = Some (eff ! ((i + length eff - 1) mod length eff))"
    if ok: "unloadAsync eng = Resolves () \<and> createAsync eng = Resolves ()"
  proof -
    from ok have u: "unloadAsync eng = Resolves ()" and c: "createAsync eng = Resolves ()"
      by simp_all
    show ?thesis using nav playSong_succeeds [OF u c] by simp
  qed
  with nav show ?thesis by blast
qed

text \<open>
  The hypotheses hold in the state reached on the playlist a, b, a, c with the first index
  of song a, which is 0: the next song is b and the previous one is c.
\<close>

theorem next_previous_wrap_around_witness:
  "currentSong in_repeating = Some songA
   \<and> repeating ! 0 = songA
   \<and> playNextSong obliging in_repeating = playSong obliging (Some songB) in_repeating
   \<and> playPreviousSong obliging in_repeating = playSong obliging (Some songC) in_repeating
   \<and> currentSong (fst (playNextSong obliging in_repeating)) = Some songB
   \<and> currentSong (fst (playPreviousSong obliging in_repeating)) = Some songC"
proof -
  have c: "currentSong in_repeating = Some songA"
    by (simp add: in_repeating_value)
  have e: "repeating = (if playlist in_repeating \<noteq> [] then playlist in_repeating
                        else masterPlaylist in_repeating)"
    by (simp add: in_repeating_value)
  have i: "0 < length repeating" by (simp add: repeating_def)
  have s: "song_id (repeating ! 0) = song_id songA" by (simp add: repeating_def)
  have f: "\<forall>j<0. song_id (repeating ! j) \<noteq> song_id songA" by simp
  have u: "unloadAsync obliging = Resolves () \<and> createAsync obliging = Resolves ()"
    by (simp add: obliging_def)
  have n0: "repeating ! 0 = songA"
    and n1: "repeating ! ((0 + 1) mod length repeating) = songB"
    and n3: "repeating ! ((0 + length repeating - 1) mod length repeating) = songC"
    by (simp_all add: repeating_def)
  from next_previous_wrap_around [OF c e i s f, of obliging] u
  show ?thesis unfolding n1 n3 using c n0 by blast
qed

text \<open>
  The claim as it was stated, for every index at which the current song occurs, fails
  when a song occurs twice. After two skips on the playlist a, b, a, c the current song
  is a, which occurs at index 2; \<^verbatim>\<open>playNextSong\<close> plays the song at index 1 and not
  the one at index 3, because \<^verbatim>\<open>findIndex\<close> stops at index 0.
\<close>

theorem duplicate_counterexample:
  "currentSong in_repeating = Some songA
   \<and> getEffectivePlaylist in_repeating = repeating
   \<and> repeating ! 2 = songA
   \<and> playNextSong obliging in_repeating = playSong obliging (Some (repeating ! 1)) in_repeating
   \<and> currentSong (fst (playNextSong obliging in_repeating)) = Some songB
   \<and> currentSong (fst (playNextSong obliging in_repeating))
        \<noteq> Some (repeating ! ((2 + 1) mod length repeating))"
  by (simp add: in_repeating_value eval_defs repeating_def songA_def songB_def songC_def)

section \<open>The position stays within the duration\<close>

lemma playNextSong_cases:
  "playNextSong eng w = (w, Fulfilled) \<or> (\<exists>s. playNextSong eng w = playSong eng s w)"
  by (auto simp: playNextSong_def Let_def)

lemma playPreviousSong_cases:
  "playPreviousSong eng w = (w, Fulfilled) \<or> (\<exists>s. playPreviousSong eng w = playSong eng s w)"
  by (auto simp: playPreviousSong_def Let_def)

lemma stopSongAndClear_eq: "stopSongAndClear eng w = stopSong eng w"
  by (simp add: stopSongAndClear_def split: prod.split outcome.split)

lemma playNextSong_from_cases:
  "playNextSong_from r eng w = (w, Fulfilled)
     \<or> (\<exists>s. playNextSong_from r eng w = playSong_from r eng s w)"
  by (auto simp: playNextSong_from_def Let_def)

lemma playPreviousSong_from_cases:
  "playPreviousSong_from r eng w = (w, Fulfilled)
     \<or> (\<exists>s. playPreviousSong_from r eng w = playSong_from r eng s w)"
  by (auto simp: playPreviousSong_from_def Let_def)

lemma stopSongAndClear_from_eq: "stopSongAndClear_from r eng w = stopSong_from r eng w"
  by (simp add: stopSongAndClear_from_def split: prod.split outcome.split)

lemma playSong_from_timed: "timed (fst (playSong_from r eng s w)) = timed w"
  by (simp add: timed_def playSong_from_def native_def console_error_def Let_def
      split: option.split reply.split)

lemma pauseSong_from_timed: "timed (fst (pauseSong_from r eng w)) = timed w"
  by (simp add: timed_def pauseSong_from_def native_def console_error_def Let_def
      split: option.split reply.split)

lemma resumeSong_from_timed: "timed (fst (resumeSong_from r eng w)) = timed w"
  by (simp add: timed_def resumeSong_from_def native_def console_error_def Let_def
      split: option.split reply.split)

lemma seekTo_from_timed: "timed (fst (seekTo_from r eng pos w)) = timed w"
  by (simp add: timed_def seekTo_from_def native_def Let_def split: option.split reply.split)

lemma playNextSong_from_timed: "timed (fst (playNextSong_from r eng w)) = timed w"
  using playNextSong_from_cases [of r eng w] by (auto simp: playSong_from_timed)

lemma playPreviousSong_from_timed: "timed (fst (playPreviousSong_from r eng w)) = timed w"
  using playPreviousSong_from_cases [of r eng w] by (auto simp: playSong_from_timed)

lemma stopSong_from_timed: "timed w \<Longrightarrow> timed (fst (stopSong_from r eng w))"
  by (simp add: timed_def stopSong_from_def native_def Let_def split: option.split reply.split)

lemma perform_timed: "timed w \<Longrightarrow> timed (fst (perform r op eng w))"
  by (cases op)
    (simp_all add: playSong_from_timed pauseSong_from_timed resumeSong_from_timed
      seekTo_from_timed playNextSong_from_timed playPreviousSong_from_timed
      stopSong_from_timed stopSongAndClear_from_eq)

lemma setPlaylistWithMaster_timed: "timed (setPlaylistWithMaster songs w) = timed w"
  by (simp add: timed_def setPlaylistWithMaster_def Let_def)

lemma afterRender_timed: "timed (afterRender b w) = timed w"
  by (simp add: timed_def afterRender_def syncMasterPlaylist_def registerListener_def Let_def)

lemma updatePlaybackStatus_from_timed:
  "timed w \<Longrightarrow> reports_in_range w (Reported status) \<Longrightarrow>
     timed (updatePlaybackStatus_from r status w)"
  by (cases status) (simp_all add: updatePlaybackStatus_from_def timed_def Let_def)

lemma pollPosition_from_timed:
  "timed w \<Longrightarrow> reports_in_range w (TickSettled k answer) \<Longrightarrow>
     timed (pollPosition_from r answer (w\<lparr>polls := ps\<rparr>))"
proof -
  assume t: "timed w" and r: "reports_in_range w (TickSettled k answer)"
  from t have t': "timed (w\<lparr>polls := ps\<rparr>)" by (simp add: timed_def)
  show ?thesis
  proof (cases answer)
    case (Rejects e)
    with t' show ?thesis by (simp add: pollPosition_from_def split: option.split)
  next
    case (Resolves status)
    show ?thesis
    proof (cases status)
      case NotLoaded
      with t' Resolves show ?thesis by (simp add: pollPosition_from_def split: option.split)
    next
      case (Loaded playing dur pos finished)
      with r Resolves have "0 \<le> pos \<and> pos \<le> duration w" by simp
      with t' Loaded Resolves show ?thesis
        by (simp add: pollPosition_from_def timed_def split: option.split)
    qed
  qed
qed

lemma handler_timed: "timed w \<Longrightarrow> reports_in_range w e \<Longrightarrow> timed (handler e w)"
proof (cases e)
  case (SetPlaylist songs)
  assume "timed w"
  with SetPlaylist show ?thesis by (simp add: setPlaylistWithMaster_timed)
next
  case (Called op)
  assume "timed w"
  with Called show ?thesis by (simp add: timed_def)
next
  case (Settled k eng)
  assume "timed w"
  then have "timed (w\<lparr>pending := without k (pending w)\<rparr>)" by (simp add: timed_def)
  with \<open>timed w\<close> Settled show ?thesis by (simp add: perform_timed)
next
  case (Reported status)
  assume "timed w" and "reports_in_range w e"
  with Reported show ?thesis
    by (cases "listener w") (simp_all add: updatePlaybackStatus_from_timed)
next
  case TickStarted
  assume "timed w"
  with TickStarted show ?thesis by (simp add: timed_def)
next
  case (TickSettled k answer)
  assume "timed w" and "reports_in_range w e"
  with TickSettled show ?thesis by (simp add: pollPosition_from_timed)
qed

lemma step_timed: "timed w \<Longrightarrow> reports_in_range w e \<Longrightarrow> timed (step e w)"
  by (simp add: step_def afterRender_timed handler_timed)

lemma run_timed: "timed w \<Longrightarrow> all_in_range w es \<Longrightarrow> timed (run w es)"
  by (induction es arbitrary: w) (simp_all add: step_timed)


text \<open>
  Claim C2, as amended. In every state reached from the initial state by a sequence of
  operations of the provider (playing, pausing, resuming, seeking, next, previous,
  stopping, setting the playlist, status reports, ticks of the position timer) in which
  every loaded status report carries a position between 0 and its own duration (0 when
  it has none) and every polled status a position between 0 and the duration held, the
  position lies between 0 and the duration.
\<close>

theorem position_within_duration:
  assumes "all_in_range initial es"
  shows "0 \<le> position (run initial es) \<and> position (run initial es) \<le> duration (run initial es)"
proof -
  have "timed initial" by (simp add: timed_def initial_def)
  then have "timed (run initial es)" using assms by (rule run_timed)
  then show ?thesis by (simp add: timed_def)
qed

text \<open>
  A track of three minutes is played, the engine reports it at 500 ms and the timer polls it
  at 1500 ms: all reports are in range, and the position ends at 1500 of 180000.
\<close>

theorem position_within_duration_witness:
  "all_in_range initial with_duration \<and> position (run initial with_duration) = 1500
    \<and> duration (run initial with_duration) = 180000
    \<and> 0 \<le> position (run initial with_duration)
    \<and> position (run initial with_duration) \<le> duration (run initial with_duration)"
proof -
  have r: "all_in_range initial with_duration"
    by (simp add: with_duration_def eval_defs or_zero_def songA_def)
  have "position (run initial with_duration) = 1500 \<and> duration (run initial with_duration) = 180000"
    by (simp add: with_duration_def eval_defs or_zero_def songA_def)
  with r position_within_duration [OF r] show ?thesis by simp
qed

text \<open>
  Without the condition on the reports the claim fails: the provider copies what the
  engine reports and clamps nothing. A loaded report without a duration, 500 ms into
  the track, leaves the position at 500 and the duration at 0.
\<close>

theorem position_exceeds_duration:
  "position (run initial no_duration) = 500 \<and> duration (run initial no_duration) = 0
   \<and> \<not> position (run initial no_duration) \<le> duration (run initial no_duration)"
  by (simp add: no_duration_def eval_defs or_zero_def songA_def)

section \<open>Navigation without a resolvable current song\<close>

lemma getCurrentSongIndex_absent:
  assumes "currentSong w = None
      \<or> (\<exists>c. currentSong w = Some c \<and> song_id c \<notin> song_id ` set (playlist w)
              \<and> song_id c \<notin> song_id ` set (masterPlaylist w))
      \<or> (playlist w = [] \<and> masterPlaylist w = [])"
  shows "getCurrentSongIndex w = - 1"
proof (cases "currentSong w")
  case None
  then show ?thesis by (simp add: getCurrentSongIndex_def)
next
  case (Some c)
  with assms consider
      (absent) "song_id c \<notin> song_id ` set (playlist w)"
               "song_id c \<notin> song_id ` set (masterPlaylist w)"
    | (empty) "playlist w = []" "masterPlaylist w = []"
    by auto
  then show ?thesis
  proof cases
    case absent
    have "findIndex (\<lambda>song. song_id song = song_id c) (playlist w) = - 1"
      using absent(1) by (fastforce simp: findIndex_none image_iff)
    moreover have "findIndex (\<lambda>song. song_id song = song_id c) (masterPlaylist w) = - 1"
      using absent(2) by (fastforce simp: findIndex_none image_iff)
    ultimately show ?thesis using Some by (simp add: getCurrentSongIndex_def)
  next
    case empty
    with Some show ?thesis by (simp add: getCurrentSongIndex_def)
  qed
qed

lemma off_list_value: "off_list =
   \<lparr> currentSong = Some songA, isPlaying = True, playbackInstance = Some 0,
       duration = 0, position = 0, playlist = [songB, songC], masterPlaylist = [songB, songC],
       loadedSounds = {0}, soundsCreated = 1,
       nativeCalls = [CreateAsync ''/music/a.mp3''], console = [],
       listener = Some \<lparr> currentSong = Some songA, isPlaying = True,
          playbackInstance = Some 0, duration = 0, position = 0, playlist = [],
          masterPlaylist = [] \<rparr>,
       pending = [], polls = [] \<rparr>"
  by (simp add: off_list_def eval_defs songA_def)


text \<open>
  Claim C5. If there is no current song, or no song with the identifier of the current
  song occurs in the active playlist nor in the master playlist, or both playlists are
  empty, then \<^verbatim>\<open>playNextSong\<close> and \<^verbatim>\<open>playPreviousSong\<close> are no-ops: their promise is
  fulfilled and the state is the one they started from, in every cell (current song,
  playing flag, position, duration, both playlists) and in the environment (no native
  call is issued, nothing is logged). A song occurs in a playlist when its identifier
  does, which is how the provider compares songs.
\<close>

theorem navigation_noop:
  assumes "currentSong w = None
      \<or> (\<exists>c. currentSong w = Some c \<and> song_id c \<notin> song_id ` set (playlist w)
              \<and> song_id c \<notin> song_id ` set (masterPlaylist w))
      \<or> (playlist w = [] \<and> masterPlaylist w = [])"
  shows "playNextSong eng w = (w, Fulfilled) \<and> playPreviousSong eng w = (w, Fulfilled)"
  using getCurrentSongIndex_absent [OF assms]
  by (simp add: playNextSong_def playPreviousSong_def Let_def)


text \<open>The second case of the hypothesis holds when song a plays and the playlist is b, c.\<close>

theorem navigation_noop_witness:
  "currentSong off_list = Some songA \<and> playlist off_list = [songB, songC]
   \<and> masterPlaylist off_list = [songB, songC]
   \<and> playNextSong obliging off_list = (off_list, Fulfilled)
   \<and> playPreviousSong obliging off_list = (off_list, Fulfilled)"
proof -
  have "currentSong off_list = Some songA
      \<and> song_id songA \<notin> song_id ` set (playlist off_list)
      \<and> song_id songA \<notin> song_id ` set (masterPlaylist off_list)"
    by (simp add: off_list_value songA_def songB_def songC_def)
  then have "currentSong off_list = None
      \<or> (\<exists>c. currentSong off_list = Some c \<and> song_id c \<notin> song_id ` set (playlist off_list)
              \<and> song_id c \<notin> song_id ` set (masterPlaylist off_list))
      \<or> (playlist off_list = [] \<and> masterPlaylist off_list = [])"
    by blast
  from navigation_noop [OF this, of obliging] show ?thesis
    by (simp add: off_list_value)
qed


section \<open>Stopping\<close>

lemma stopSong_in_repeating:
  "stopSong obliging in_repeating =
     (\<lparr> currentSong = None, isPlaying = False, playbackInstance = None,
         duration = 0, position = 0, playlist = repeating, masterPlaylist = repeating,
         loadedSounds = {}, soundsCreated = 3,
         nativeCalls = [CreateAsync ''/music/a.mp3'', UnloadAsync 0,
            CreateAsync ''/music/b.mp3'', UnloadAsync 1, CreateAsync ''/music/a.mp3'',
            StopAsync 2, UnloadAsync 2], console = [],
         listener = Some \<lparr> currentSong = Some songA, isPlaying = True,
            playbackInstance = Some 2, duration = 0, position = 0, playlist = repeating,
            masterPlaylist = repeating \<rparr>,
         pending = [], polls = [] \<rparr>, Fulfilled)"
  by (simp add: in_repeating_value stopSong_def native_def obliging_def)


text \<open>
  Claim C8. After \<^verbatim>\<open>stopSong\<close> has completed successfully (its promise is fulfilled),
  the playback state is reset: there is no current song, the playing flag is false,
  position and duration are 0 and the playback instance is null; the active playlist and
  the master playlist are the ones before the call.
\<close>

theorem stopSong_resets:
  assumes "stopSong eng w = (w', Fulfilled)"
  shows "currentSong w' = None \<and> \<not> isPlaying w' \<and> position w' = 0 \<and> duration w' = 0
     \<and> playbackInstance w' = None
     \<and> playlist w' = playlist w \<and> masterPlaylist w' = masterPlaylist w"
  using assms
  by (auto simp: stopSong_def native_def Let_def split: option.splits reply.splits)

text \<open>Stopping in the state reached on the playlist a, b, a, c, with an engine that does
  what it is asked.\<close>

theorem stopSong_resets_witness:
  "snd (stopSong obliging in_repeating) = Fulfilled
   \<and> currentSong (fst (stopSong obliging in_repeating)) = None
   \<and> \<not> isPlaying (fst (stopSong obliging in_repeating))
   \<and> position (fst (stopSong obliging in_repeating)) = 0
   \<and> duration (fst (stopSong obliging in_repeating)) = 0
   \<and> playbackInstance (fst (stopSong obliging in_repeating)) = None
   \<and> playlist (fst (stopSong obliging in_repeating)) = repeating
   \<and> masterPlaylist (fst (stopSong obliging in_repeating)) = repeating"
proof -
  have f: "snd (stopSong obliging in_repeating) = Fulfilled"
    by (simp add: stopSong_in_repeating)
  then have "stopSong obliging in_repeating = (fst (stopSong obliging in_repeating), Fulfilled)"
    by (metis prod.collapse)
  from stopSong_resets [OF this] f show ?thesis by (simp add: in_repeating_value)
qed


text \<open>
  Claim C9. \<^verbatim>\<open>stopSongAndClear\<close> performs exactly the transition of \<^verbatim>\<open>stopSong\<close>, for
  every state and every answer of the engine, with the same settlement of its promise;
  in particular it leaves the active playlist and the master playlist as they were.
\<close>

theorem stopSongAndClear_is_stopSong:
  "stopSongAndClear eng w = stopSong eng w
   \<and> playlist (fst (stopSongAndClear eng w)) = playlist w
   \<and> masterPlaylist (fst (stopSongAndClear eng w)) = masterPlaylist w"
proof -
  have "playlist (fst (stopSong eng w)) = playlist w
      \<and> masterPlaylist (fst (stopSong eng w)) = masterPlaylist w"
    by (simp add: stopSong_def native_def Let_def split: option.split reply.split)
  then show ?thesis by (simp add: stopSongAndClear_eq)
qed


section \<open>The mini player overlay\<close>

text \<open>For a value of the current route, the overlay is rendered exactly when a current song
  is set and the value is not the string \<^verbatim>\<open>/player\<close>.\<close>

lemma overlay_for_route:
  "rendered (miniPlayer (TabsLayout_returns os song currentRoute))
     = (song \<noteq> None \<and> currentRoute \<noteq> Some (JsString ''/player''))"
  by (cases song) (simp_all add: TabsLayout_returns_def)

lemma router_has_no_pathname: "property (useRouter screen) ''pathname'' = None"
  by (simp add: property_def useRouter_def)

text \<open>
  Claim C10 says that the overlay is not rendered while the player screen is the active
  route. The component compares a value that is \<^verbatim>\<open>undefined\<close> on every screen, so
  with a current song the overlay is rendered on the player screen as on any other, and
  the scene container gets its bottom padding; without a current song it is not
  rendered.
\<close>

theorem overlay_on_player_screen:
  "rendered (miniPlayer (TabsLayout os (Some song) ''/player''))
   \<and> scenePaddingBottom (TabsLayout os (Some song) ''/player'') = 67
   \<and> rendered (miniPlayer (TabsLayout os (Some song) screen))
   \<and> \<not> rendered (miniPlayer (TabsLayout os None screen))"
  by (simp add: TabsLayout_def router_has_no_pathname overlay_for_route
      TabsLayout_returns_def MINI_PLAYER_HEIGHT_def)

section \<open>The master playlist\<close>



































section \<open>Status reports\<close>

text \<open>A report of an instance that is not loaded changes nothing, whatever render the
  callback belongs to.\<close>

lemma unloaded_report: "step (Reported NotLoaded) w = w"
  by (cases "listener w")
     (simp_all add: step_def afterRender_same updatePlaybackStatus_from_def)

text \<open>
  Claim C6 says that when a loaded track reports that it has just finished, and the
  effective playlist is non-empty and contains the current song, the next song of that
  playlist starts playing. The callback the engine calls is the one the effect of lines
  92 to 99 registered, which runs only when the playback instance changes: its
  \<^verbatim>\<open>playNextSong\<close> reads the playlists of the render in which the song was loaded.
  When the playlist was set before the song was played, the next song b is played. When
  the song was played first and the playlist a, b set afterwards, the effective playlist
  contains the current song a and nothing is played: \<^verbatim>\<open>playNextSong\<close> finds both
  lists empty and returns, no native call is issued and the playing flag stays as
  reported. When the playlist a, b was replaced by a, c after the song was played, b is
  played, which is not in the playlist, and not c.
\<close>

theorem stale_status_callback:
  "currentSong (run initial playlist_set_first) = Some songB
   \<and> getEffectivePlaylist (run initial (uninterrupted (Play songA) obliging
        @ [SetPlaylist [songA, songB]])) = [songA, songB]
   \<and> currentSong (run initial (uninterrupted (Play songA) obliging
        @ [SetPlaylist [songA, songB]])) = Some songA
   \<and> currentSong (run initial playlist_set_later) = Some songA
   \<and> \<not> isPlaying (run initial playlist_set_later)
   \<and> nativeCalls (run initial playlist_set_later) = [CreateAsync ''/music/a.mp3'']
   \<and> pending (run initial playlist_set_later) = []
   \<and> getEffectivePlaylist (run initial playlist_replaced) = [songA, songC]
   \<and> currentSong (run initial playlist_replaced) = Some songB"
  by (simp add: playlist_set_first_def playlist_set_later_def playlist_replaced_def
      finished_def eval_defs or_zero_def songA_def songB_def songC_def)

section \<open>Failures of the native engine\<close>

text \<open>\<^verbatim>\<open>playSong\<close>, \<^verbatim>\<open>pauseSong\<close> and \<^verbatim>\<open>resumeSong\<close> wrap their body in
  \<^verbatim>\<open>try\<close> and \<^verbatim>\<open>catch\<close>: their promise is fulfilled whatever the engine answers.\<close>

lemma caught_handlers_fulfil:
  "snd (playSong eng s w) = Fulfilled \<and> snd (pauseSong eng w) = Fulfilled
   \<and> snd (resumeSong eng w) = Fulfilled"
  by (simp add: playSong_def pauseSong_def resumeSong_def Let_def
      split: option.split reply.split sum.split)

lemma after_failed_load_value: "after_failed_load =
   \<lparr> currentSong = Some songA, isPlaying = True, playbackInstance = Some 0,
       duration = 0, position = 0, playlist = [], masterPlaylist = [],
       loadedSounds = {}, soundsCreated = 1,
       nativeCalls = [CreateAsync ''/music/a.mp3'', UnloadAsync 0, CreateAsync ''/music/b.mp3''],
       console = [(''Error playing song:'', ''load failed'')],
       listener = Some \<lparr> currentSong = Some songA, isPlaying = True,
          playbackInstance = Some 0, duration = 0, position = 0, playlist = [],
          masterPlaylist = [] \<rparr>,
       pending = [], polls = [] \<rparr>"
  by (simp add: after_failed_load_def load_fails_def eval_defs songA_def songB_def)


text \<open>
  Claim C3 says that a failure of a native call is caught, logged and not propagated, for
  \<^verbatim>\<open>seekTo\<close> and \<^verbatim>\<open>stopSong\<close> as well. These two have no \<^verbatim>\<open>try\<close>. After
  a load has failed the provider still holds the unloaded sound of the previous song; if
  the engine then rejects \<^verbatim>\<open>setPositionAsync\<close> or \<^verbatim>\<open>stopAsync\<close>, the promise of
  \<^verbatim>\<open>seekTo\<close> or \<^verbatim>\<open>stopSong\<close> is rejected with that error, nothing is logged, and
  \<^verbatim>\<open>stopSong\<close> leaves the current song in place. \<^verbatim>\<open>pauseSong\<close> in the same state
  logs the error and fulfils its promise.
\<close>

theorem rejection_escapes:
  "playbackInstance after_failed_load = Some 0
   \<and> loadedSounds after_failed_load = {}
   \<and> seekTo refuses 5000 after_failed_load
       = (native (SetPositionAsync 0 5000) after_failed_load, Rejected ''sound is not loaded'')
   \<and> console (fst (seekTo refuses 5000 after_failed_load)) = console after_failed_load
   \<and> stopSong refuses after_failed_load
       = (native (StopAsync 0) after_failed_load, Rejected ''sound is not loaded'')
   \<and> console (fst (stopSong refuses after_failed_load)) = console after_failed_load
   \<and> currentSong (fst (stopSong refuses after_failed_load)) = Some songA
   \<and> snd (pauseSong refuses after_failed_load) = Fulfilled
   \<and> console (fst (pauseSong refuses after_failed_load))
       = console after_failed_load @ [(''Error pausing song:'', ''sound is not loaded'')]"
  by (simp add: after_failed_load_value seekTo_def stopSong_def pauseSong_def native_def
      console_error_def refuses_def)


section \<open>One loaded sound at a time\<close>

lemma playSong_from_single:
  "single_handle w \<Longrightarrow> playbackInstance r = playbackInstance w \<Longrightarrow>
     single_handle (fst (playSong_from r eng s w))"
  by (auto simp: single_handle_def playSong_from_def native_def console_error_def Let_def
      split: option.split reply.split)

lemma pauseSong_from_single: "single_handle (fst (pauseSong_from r eng w)) = single_handle w"
  by (simp add: single_handle_def pauseSong_from_def native_def console_error_def Let_def
      split: option.split reply.split)

lemma resumeSong_from_single: "single_handle (fst (resumeSong_from r eng w)) = single_handle w"
  by (simp add: single_handle_def resumeSong_from_def native_def console_error_def Let_def
      split: option.split reply.split)

lemma seekTo_from_single: "single_handle (fst (seekTo_from r eng pos w)) = single_handle w"
  by (simp add: single_handle_def seekTo_from_def native_def Let_def
      split: option.split reply.split)

lemma stopSong_from_single:
  "single_handle w \<Longrightarrow> playbackInstance r = playbackInstance w \<Longrightarrow>
     single_handle (fst (stopSong_from r eng w))"
  by (auto simp: single_handle_def stopSong_from_def native_def Let_def
      split: option.split reply.split)

lemma playNextSong_from_single:
  "single_handle w \<Longrightarrow> playbackInstance r = playbackInstance w \<Longrightarrow>
     single_handle (fst (playNextSong_from r eng w))"
  using playNextSong_from_cases [of r eng w] by (auto simp: playSong_from_single)

lemma playPreviousSong_from_single:
  "single_handle w \<Longrightarrow> playbackInstance r = playbackInstance w \<Longrightarrow>
     single_handle (fst (playPreviousSong_from r eng w))"
  using playPreviousSong_from_cases [of r eng w] by (auto simp: playSong_from_single)

lemma perform_single:
  "single_handle w \<Longrightarrow> changes_instance op \<longrightarrow> playbackInstance r = playbackInstance w \<Longrightarrow>
     single_handle (fst (perform r op eng w))"
  by (cases op)
    (simp_all add: playSong_from_single pauseSong_from_single resumeSong_from_single
      seekTo_from_single playNextSong_from_single playPreviousSong_from_single
      stopSong_from_single stopSongAndClear_from_eq)

lemma afterRender_single: "single_handle (afterRender b w) = single_handle w"
  by (simp add: single_handle_def afterRender_def syncMasterPlaylist_def registerListener_def
      Let_def)

lemma handler_single:
  assumes "single_handle w" and "settles_in_time w e"
  shows "single_handle (handler e w)"
proof (cases e)
  case (SetPlaylist songs)
  with assms(1) show ?thesis by (simp add: single_handle_def setPlaylistWithMaster_def Let_def)
next
  case (Called op)
  with assms(1) show ?thesis by (simp add: single_handle_def)
next
  case (Settled k eng)
  show ?thesis
  proof (cases "k < length (pending w)")
    case True
    let ?v = "w\<lparr>pending := without k (pending w)\<rparr>"
    from assms(1) have "single_handle ?v" by (simp add: single_handle_def)
    moreover from assms(2) Settled True
    have "changes_instance (snd (pending w ! k)) \<longrightarrow>
        playbackInstance (fst (pending w ! k)) = playbackInstance ?v" by simp
    ultimately have "single_handle (fst (perform (fst (pending w ! k)) (snd (pending w ! k)) eng ?v))"
      by (rule perform_single)
    with Settled True show ?thesis by simp
  next
    case False
    with Settled assms(1) show ?thesis by simp
  qed
next
  case (Reported status)
  with assms(1) show ?thesis
    by (cases "listener w"; cases status)
       (simp_all add: single_handle_def updatePlaybackStatus_from_def Let_def)
next
  case TickStarted
  with assms(1) show ?thesis by (simp add: single_handle_def)
next
  case (TickSettled k answer)
  with assms(1) show ?thesis
    by (simp add: single_handle_def pollPosition_from_def
        split: option.split reply.split AVPlaybackStatus.split)
qed

lemma run_single: "single_handle w \<Longrightarrow> all_in_time w es \<Longrightarrow> single_handle (run w es)"
  by (induction es arbitrary: w) (simp_all add: step_def afterRender_single handler_single)

text \<open>
  Claim C7, as amended. In every state reached from the initial state by a sequence of
  events in which every call that unloads or loads a sound (\<^verbatim>\<open>playSong\<close>,
  \<^verbatim>\<open>playNextSong\<close>, \<^verbatim>\<open>playPreviousSong\<close>, \<^verbatim>\<open>stopSong\<close>, \<^verbatim>\<open>stopSongAndClear\<close>)
  settles while the provider still holds the playback instance of the render the call
  was made from, at most one sound is loaded, and a loaded sound is the playback instance
  the provider holds. \<^verbatim>\<open>playSong\<close> issues the unload of the
  instance it holds, when there is one, before the load of the next sound, and issues no
  load when that unload fails. When \<^verbatim>\<open>stopSong\<close> completes, the instance it held is
  no longer loaded and the handle is null.
\<close>

theorem at_most_one_loaded:
  assumes "all_in_time initial es"
  shows "card (loadedSounds (run initial es)) \<le> 1
   \<and> loadedSounds (run initial es) \<subseteq> set_option (playbackInstance (run initial es))
   \<and> nativeCalls (fst (playSong eng (Some s) w))
       = nativeCalls w
         @ (case playbackInstance w of None \<Rightarrow> [] | Some h \<Rightarrow> [UnloadAsync h])
         @ (if playbackInstance w \<noteq> None \<and> unloadAsync eng \<noteq> Resolves () then []
            else [CreateAsync (filePath s)])
   \<and> (stopSong eng w = (w', Fulfilled) \<longrightarrow>
        playbackInstance w' = None
        \<and> (\<forall>h. playbackInstance w = Some h \<longrightarrow> h \<notin> loadedSounds w'))"
proof -
  have "single_handle initial" by (simp add: single_handle_def initial_def)
  then have "single_handle (run initial es)" using assms by (rule run_single)
  then have s: "loadedSounds (run initial es) \<subseteq> set_option (playbackInstance (run initial es))"
    by (simp add: single_handle_def)
  have "card (set_option (playbackInstance (run initial es))) \<le> 1"
    by (cases "playbackInstance (run initial es)") simp_all
  moreover have "card (loadedSounds (run initial es))
      \<le> card (set_option (playbackInstance (run initial es)))"
    using s by (intro card_mono) simp_all
  ultimately have c: "card (loadedSounds (run initial es)) \<le> 1" by linarith
  have calls: "nativeCalls (fst (playSong eng (Some s) w))
       = nativeCalls w
         @ (case playbackInstance w of None \<Rightarrow> [] | Some h \<Rightarrow> [UnloadAsync h])
         @ (if playbackInstance w \<noteq> None \<and> unloadAsync eng \<noteq> Resolves () then []
            else [CreateAsync (filePath s)])"
    by (simp add: playSong_def native_def console_error_def Let_def
        split: option.split reply.split)
  have stop: "playbackInstance w' = None
        \<and> (\<forall>h. playbackInstance w = Some h \<longrightarrow> h \<notin> loadedSounds w')"
    if "stopSong eng w = (w', Fulfilled)"
    using that
    by (auto simp: stopSong_def native_def Let_def split: option.splits reply.splits)
  from c s calls stop show ?thesis by simp
qed

text \<open>
  A playlist is set, its second song is played and the next one after it, each call
  settling before the next is made: the second sound replaces the first. In the state
  reached on the playlist a, b, a, c a fulfilled \<^verbatim>\<open>stopSong\<close> unloads the sound held.
\<close>

theorem at_most_one_loaded_witness:
  "all_in_time initial (before_clearing @ uninterrupted Next obliging)
   \<and> loadedSounds (run initial (before_clearing @ uninterrupted Next obliging)) = {1}
   \<and> card (loadedSounds (run initial (before_clearing @ uninterrupted Next obliging))) \<le> 1
   \<and> snd (stopSong obliging in_repeating) = Fulfilled
   \<and> playbackInstance in_repeating = Some 2
   \<and> playbackInstance (fst (stopSong obliging in_repeating)) = None
   \<and> 2 \<notin> loadedSounds (fst (stopSong obliging in_repeating))"
proof -
  have t: "all_in_time initial (before_clearing @ uninterrupted Next obliging)"
    by (simp add: before_clearing_def eval_defs songA_def songB_def songC_def)
  have l: "loadedSounds (run initial (before_clearing @ uninterrupted Next obliging)) = {1}"
    by (simp add: before_clearing_def eval_defs songA_def songB_def songC_def)
  have f: "stopSong obliging in_repeating = (fst (stopSong obliging in_repeating), Fulfilled)"
    by (simp add: stopSong_in_repeating)
  have p: "playbackInstance in_repeating = Some 2"
    by (simp add: in_repeating_value)
  from at_most_one_loaded [OF t, of obliging songA in_repeating
      "fst (stopSong obliging in_repeating)"] f p l
  show ?thesis using t by (metis snd_conv)
qed

text \<open>
  Without the condition the claim fails. \<^verbatim>\<open>playSong\<close> unloads the instance of the
  render it was called from, and nothing keeps a second call from being made before the
  first has loaded its sound. Two calls from the initial render each find no instance to
  unload and each load a sound: both sounds are loaded, the provider holds the second,
  and the first is referred to by nothing.
\<close>

theorem two_sounds_loaded:
  "loadedSounds (run initial double_tap) = {0, 1}
   \<and> card (loadedSounds (run initial double_tap)) = 2
   \<and> playbackInstance (run initial double_tap) = Some 1
   \<and> currentSong (run initial double_tap) = Some songB
   \<and> nativeCalls (run initial double_tap)
       = [CreateAsync ''/music/a.mp3'', CreateAsync ''/music/b.mp3'']"
  by (auto simp: double_tap_def eval_defs songA_def songB_def)


end
